theory Spec2Isabelle
  imports Complex_Main "HOL-Library.AList"
begin

section \<open>Python values\<close>

text \<open>
  A Python 3 \<open>str\<close> is a sequence of Unicode code points: \<open>len\<close> counts code points
  and \<open>count\<close> counts occurrences of a code point. Code points are natural numbers;
  \<open>lit\<close> turns an ASCII literal of the source into such a sequence.
\<close>

type_synonym pystr = "nat list"

definition lit :: "string \<Rightarrow> pystr" where
  "lit s = map of_char s"

definition newline :: nat where
  "newline = 10"

text \<open>\<open>sep.join(xs)\<close>\<close>

fun join :: "pystr \<Rightarrow> pystr list \<Rightarrow> pystr" where
  "join sep [] = []"
| "join sep [x] = x"
| "join sep (x # y # ys) = x @ sep @ join sep (y # ys)"

text \<open>\<open>str(n)\<close> for an \<open>int\<close>: the decimal digits, with a minus sign when negative.\<close>

fun str_nat :: "nat \<Rightarrow> pystr" where
  "str_nat n = (if n < 10 then [48 + n] else str_nat (n div 10) @ [48 + n mod 10])"

declare str_nat.simps [simp del]

definition str_int :: "int \<Rightarrow> pystr" where
  "str_int i = (if i < 0 then 45 # str_nat (nat (- i)) else str_nat (nat i))"

text \<open>
  The values the manager returns are dictionaries of strings, numbers, booleans and nested
  dictionaries. A \<open>dict\<close> keeps insertion order, so it is an association list; assignment
  to an existing key replaces the value in place, assignment to a new key appends.
\<close>

datatype pyval =
    PNone
  | PBool bool
  | PInt int
  | PFloat real
  | PStr pystr
  | PList "pyval list"
  | PDict "(pystr \<times> pyval) list"

definition dict_setitem :: "('k \<times> 'v) list \<Rightarrow> 'k \<Rightarrow> 'v \<Rightarrow> ('k \<times> 'v) list" where
  "dict_setitem d k v = AList.update k v d"

definition dict_delitem :: "('k \<times> 'v) list \<Rightarrow> 'k \<Rightarrow> ('k \<times> 'v) list" where
  "dict_delitem d k = AList.delete k d"

definition dict_keys :: "('k \<times> 'v) list \<Rightarrow> 'k list" where
  "dict_keys d = map fst d"

definition dict_values :: "('k \<times> 'v) list \<Rightarrow> 'v list" where
  "dict_values d = map snd d"

text \<open>\<open>k in d\<close>\<close>

definition dict_contains :: "('k \<times> 'v) list \<Rightarrow> 'k \<Rightarrow> bool" where
  "dict_contains d k = (map_of d k \<noteq> None)"

text \<open>\<open>r.get(k)\<close> on a result dictionary: \<open>None\<close> when the key is missing.\<close>

fun py_get :: "pyval \<Rightarrow> pystr \<Rightarrow> pyval" where
  "py_get (PDict d) k = (case map_of d k of None \<Rightarrow> PNone | Some v \<Rightarrow> v)"
| "py_get _ k = PNone"

text \<open>The field of a result dictionary, \<open>None\<close> when the dictionary has no such key.\<close>

fun field :: "pyval \<Rightarrow> string \<Rightarrow> pyval option" where
  "field (PDict d) k = map_of d (lit k)"
| "field _ k = None"

text \<open>Truth value of a Python object in a condition.\<close>

fun truthy :: "pyval \<Rightarrow> bool" where
  "truthy PNone = False"
| "truthy (PBool b) = b"
| "truthy (PInt i) = (i \<noteq> 0)"
| "truthy (PFloat x) = (x \<noteq> 0)"
| "truthy (PStr s) = (s \<noteq> [])"
| "truthy (PList xs) = (xs \<noteq> [])"
| "truthy (PDict d) = (d \<noteq> [])"

datatype pyexc = TypeError pystr | KeyError pystr

fun str_exc :: "pyexc \<Rightarrow> pystr" where
  "str_exc (TypeError msg) = msg"
| "str_exc (KeyError k) = [39] @ k @ [39]"

text \<open>\<open>r[k]\<close> on a result dictionary raises \<open>KeyError\<close> when the key is missing.\<close>

fun py_getitem :: "pyval \<Rightarrow> pystr \<Rightarrow> pyexc + pyval" where
  "py_getitem (PDict d) k = (case map_of d k of None \<Rightarrow> Inl (KeyError k) | Some v \<Rightarrow> Inr v)"
| "py_getitem _ k = Inl (TypeError (lit ''object is not subscriptable''))"

section \<open>The collaborators: identifiers, clock and command runner\<close>

text \<open>
  \<open>uuid.uuid4()\<close> returns a \<open>UUID\<close> object, here the object with its canonical text
  (what \<open>str\<close> returns for it). The class defines no \<open>__getitem__\<close>: subscripting the
  object itself raises \<open>TypeError\<close>, only its text can be sliced.
\<close>

datatype uuid = UUID pystr

fun str_uuid :: "uuid \<Rightarrow> pystr" where
  "str_uuid (UUID s) = s"

fun uuid_getitem :: "uuid \<Rightarrow> nat \<Rightarrow> pyexc + pystr" where
  "uuid_getitem u n = Inl (TypeError ([39] @ lit ''UUID'' @ [39] @ lit '' object is not subscriptable''))"

text \<open>
  \<open>subprocess.run(command, shell=True, capture_output=True, text=True, timeout=30)\<close>
  either completes with a return code and the two captured texts, or raises
  \<open>TimeoutExpired\<close>, or raises another exception (with its message). The runner is a
  parameter of the model: a function from the command line to that outcome.
\<close>

datatype run_result =
    CompletedProcess int pystr pystr
  | TimeoutExpired
  | RunException pystr

type_synonym runner = "pystr \<Rightarrow> run_result"

section \<open>Sessions\<close>

datatype SessionStatus = ACTIVE | TERMINATED

fun status_value :: "SessionStatus \<Rightarrow> pystr" where
  "status_value ACTIVE = lit ''active''"
| "status_value TERMINATED = lit ''terminated''"

record SessionStats =
  lines_written :: int
  bytes_written :: int
  commands_executed :: int
  last_activity :: real
  created_at :: real

record TTYSession =
  session_id :: pystr
  status :: SessionStatus
  stats :: SessionStats
  buffer :: pystr
  description :: pystr

text \<open>
  \<open>TTYSession(session_id=..., description=...)\<close>: the defaults of the dataclass, and
  \<open>__post_init__\<close> filling \<open>stats\<close> with the creation time.
\<close>

definition new_session :: "real \<Rightarrow> pystr \<Rightarrow> pystr \<Rightarrow> TTYSession" where
  "new_session now sid descr =
     \<lparr>session_id = sid, status = ACTIVE,
      stats = \<lparr>lines_written = 0, bytes_written = 0, commands_executed = 0,
               last_activity = 0, created_at = now\<rparr>,
      buffer = [], description = descr\<rparr>"

record TTYManager =
  sessions :: "(pystr \<times> TTYSession) list"

definition init_manager :: TTYManager where
  "init_manager = \<lparr>sessions = []\<rparr>"

section \<open>The manager's operations\<close>

text \<open>
  Every operation takes the manager and returns its result with the manager afterwards.
  The values the source reads from outside (the generated UUID, \<open>time.time()\<close>,
  \<open>time.ctime()\<close>, the runner) are arguments.
\<close>

text \<open>\<open>{"success": False, "error": f"Session {session_id} not found"}\<close>\<close>

definition not_found_result :: "pystr \<Rightarrow> pyval" where
  "not_found_result sid =
     PDict [(lit ''success'', PBool False),
            (lit ''error'', PStr (lit ''Session '' @ sid @ lit '' not found''))]"

text \<open>\<open>{"success": True, "session_id": session_id}\<close>\<close>

definition terminated_result :: "pystr \<Rightarrow> pyval" where
  "terminated_result sid = PDict [(lit ''success'', PBool True), (lit ''session_id'', PStr sid)]"

text \<open>
  \<open>create_session\<close>: the id is the first eight characters of the text of a new UUID. A
  session already stored under that id is replaced. No statement of the \<open>try\<close> block
  raises, so the result is always the success dictionary.
\<close>

definition create_session :: "uuid \<Rightarrow> real \<Rightarrow> pystr \<Rightarrow> TTYManager \<Rightarrow> pyval \<times> TTYManager" where
  "create_session u now descr m =
     (let sid = take 8 (str_uuid u);
          session = new_session now sid (if descr \<noteq> [] then descr else lit ''Session-'' @ sid)
      in (PDict [(lit ''success'', PBool True),
                 (lit ''session_id'', PStr sid),
                 (lit ''description'', PStr descr),
                 (lit ''message'', PStr (lit ''TTY session created successfully''))],
          m\<lparr>sessions := dict_setitem (sessions m) sid session\<rparr>))"

text \<open>
  \<open>execute_command\<close>. The exceptions of its \<open>try\<close> block come from \<open>subprocess.run\<close>,
  the first statement; the assignments to the session follow it. The session object is
  shared with the store, so the assignments are an update of the store at the same key.
\<close>

definition format_output :: "pystr \<Rightarrow> int \<Rightarrow> pystr \<Rightarrow> pystr \<Rightarrow> pystr \<Rightarrow> pystr" where
  "format_output command rc ctime out err =
     join [newline]
       ([lit ''Command: '' @ command,
         lit ''Return code: '' @ str_int rc,
         lit ''Timestamp: '' @ ctime]
        @ (if out \<noteq> [] then [lit ''STDOUT:'' @ [newline] @ out] else [])
        @ (if err \<noteq> [] then [lit ''STDERR:'' @ [newline] @ err] else []))"

definition execute_command ::
  "runner \<Rightarrow> real \<Rightarrow> pystr \<Rightarrow> pystr \<Rightarrow> pystr \<Rightarrow> TTYManager \<Rightarrow> pyval \<times> TTYManager" where
  "execute_command run now ctime sid command m =
     (case map_of (sessions m) sid of
        None \<Rightarrow> (not_found_result sid, m)
      | Some session \<Rightarrow>
         (case run command of
            TimeoutExpired \<Rightarrow>
              (PDict [(lit ''success'', PBool False),
                      (lit ''error'', PStr (lit ''Command timeout''))], m)
          | RunException e \<Rightarrow>
              (PDict [(lit ''success'', PBool False), (lit ''error'', PStr e)], m)
          | CompletedProcess rc out err \<Rightarrow>
              (let st1 = (stats session)\<lparr>commands_executed := commands_executed (stats session) + 1,
                                         last_activity := now\<rparr>;
                   output = format_output command rc ctime out err;
                   st2 = st1\<lparr>bytes_written := int (length output),
                             lines_written := int (count_list output newline) + 1\<rparr>;
                   session' = session\<lparr>buffer := output, stats := st2\<rparr>
               in (PDict [(lit ''success'', PBool True),
                          (lit ''session_id'', PStr sid),
                          (lit ''command'', PStr command),
                          (lit ''output'', PStr output),
                          (lit ''return_code'', PInt rc)],
                   m\<lparr>sessions := dict_setitem (sessions m) sid session'\<rparr>))))"

text \<open>
  \<open>get_session_stats\<close> reads the clock twice, once for \<open>uptime_seconds\<close> and once for
  \<open>last_activity_seconds\<close>: \<open>now\<close> and \<open>now'\<close> are the two readings.
\<close>

definition session_report :: "real \<Rightarrow> real \<Rightarrow> pystr \<Rightarrow> TTYSession \<Rightarrow> pyval" where
  "session_report now now' sid session =
     PDict [(lit ''session_id'', PStr sid),
            (lit ''description'', PStr (description session)),
            (lit ''status'', PStr (status_value (status session))),
            (lit ''stats'',
               PDict [(lit ''lines_written'', PInt (lines_written (stats session))),
                      (lit ''bytes_written'', PInt (bytes_written (stats session))),
                      (lit ''commands_executed'', PInt (commands_executed (stats session))),
                      (lit ''uptime_seconds'', PFloat (now - created_at (stats session))),
                      (lit ''last_activity_seconds'',
                         PFloat (now' - last_activity (stats session)))])]"

definition get_session_stats :: "real \<Rightarrow> real \<Rightarrow> pystr \<Rightarrow> TTYManager \<Rightarrow> pyval" where
  "get_session_stats now now' sid m =
     (case map_of (sessions m) sid of
        None \<Rightarrow> PDict [(lit ''error'', PStr (lit ''Session '' @ sid @ lit '' not found''))]
      | Some session \<Rightarrow> session_report now now' sid session)"

definition get_session :: "real \<Rightarrow> real \<Rightarrow> pystr \<Rightarrow> TTYManager \<Rightarrow> pyval" where
  "get_session now now' sid m = get_session_stats now now' sid m"

text \<open>
  \<open>list_sessions\<close> builds one report per key, each with its own two clock readings:
  \<open>clock i\<close> is the pair read for the report at position \<open>i\<close>.
\<close>

type_synonym clock = "nat \<Rightarrow> real \<times> real"

definition list_sessions :: "clock \<Rightarrow> TTYManager \<Rightarrow> pyval list" where
  "list_sessions clock m =
     map (\<lambda>(i, sid). get_session_stats (fst (clock i)) (snd (clock i)) sid m)
         (enumerate 0 (dict_keys (sessions m)))"

text \<open>
  \<open>terminate_session\<close> marks the stored session \<open>TERMINATED\<close> and then deletes the key.
\<close>

definition terminate_session :: "pystr \<Rightarrow> TTYManager \<Rightarrow> pyval \<times> TTYManager" where
  "terminate_session sid m =
     (case map_of (sessions m) sid of
        None \<Rightarrow> (not_found_result sid, m)
      | Some session \<Rightarrow>
          (let marked = dict_setitem (sessions m) sid (session\<lparr>status := TERMINATED\<rparr>)
           in (terminated_result sid, m\<lparr>sessions := dict_delitem marked sid\<rparr>)))"

text \<open>The loop of \<open>batch_terminate\<close>: \<open>results[session_id] = self.terminate_session(session_id)\<close>.\<close>

fun terminate_each ::
  "pystr list \<Rightarrow> (pystr \<times> pyval) list \<Rightarrow> TTYManager \<Rightarrow> (pystr \<times> pyval) list \<times> TTYManager" where
  "terminate_each [] results m = (results, m)"
| "terminate_each (sid # rest) results m =
     (case terminate_session sid m of
        (r, m') \<Rightarrow> terminate_each rest (dict_setitem results sid r) m')"

definition batch_terminate :: "pystr list option \<Rightarrow> TTYManager \<Rightarrow> pyval \<times> TTYManager" where
  "batch_terminate session_ids m =
     (let ids = (case session_ids of None \<Rightarrow> dict_keys (sessions m) | Some l \<Rightarrow> l)
      in case terminate_each ids [] m of
           (results, m') \<Rightarrow>
             (PDict [(lit ''success'', PBool True),
                     (lit ''terminated_count'',
                        PInt (int (length (filter (\<lambda>r. truthy (py_get r (lit ''success'')))
                                                  (dict_values results))))),
                     (lit ''details'', PDict results)],
              m'))"

definition int_of :: "pyval \<Rightarrow> int" where
  "int_of v = (case v of PInt i \<Rightarrow> i | _ \<Rightarrow> 0)"

text \<open>
  \<open>get_summary_stats\<close> reads the counters back out of the reports of \<open>list_sessions\<close>
  (\<open>s["stats"]["commands_executed"]\<close>); every report of a listed session has them.
\<close>

definition get_summary_stats :: "clock \<Rightarrow> TTYManager \<Rightarrow> pyval" where
  "get_summary_stats clock m =
     (let reports = list_sessions clock m;
          total = (\<lambda>k. sum_list (map (\<lambda>s. int_of (py_get (py_get s (lit ''stats'')) (lit k))) reports))
      in PDict [(lit ''total_sessions'', PInt (int (length reports))),
                (lit ''active_sessions'', PInt (int (length reports))),
                (lit ''total_commands'', PInt (total ''commands_executed'')),
                (lit ''total_bytes'', PInt (total ''bytes_written'')),
                (lit ''total_lines'', PInt (total ''lines_written'')),
                (lit ''session_details'', PList reports)])"

definition read_all_sessions :: "TTYManager \<Rightarrow> pyval" where
  "read_all_sessions m =
     PDict (foldl (\<lambda>results (sid, session).
                     dict_setitem results sid
                       (PDict [(lit ''description'', PStr (description session)),
                               (lit ''content'', PStr (buffer session)),
                               (lit ''lines'', PInt (lines_written (stats session))),
                               (lit ''bytes'', PInt (bytes_written (stats session)))]))
                  [] (sessions m))"

text \<open>
  \<open>health_check\<close>: the load averages and the two formatted percentages come from
  \<open>psutil\<close> and are arguments.
\<close>

definition health_check ::
  "clock \<Rightarrow> real \<Rightarrow> real list \<Rightarrow> pystr \<Rightarrow> pystr \<Rightarrow> TTYManager \<Rightarrow> pyval" where
  "health_check clock now load mem disk m =
     (let reports = list_sessions clock m
      in PDict [(lit ''status'', PStr (lit ''healthy'')),
                (lit ''timestamp'', PFloat now),
                (lit ''active_sessions'', PInt (int (length reports))),
                (lit ''system_load'', PList (map PFloat load)),
                (lit ''memory_usage'', PStr (mem @ lit ''%'')),
                (lit ''disk_usage'', PStr (disk @ lit ''%''))])"

text \<open>
  \<open>create_browser_session\<close>. The description is built from \<open>uuid.uuid4()[:8]\<close>, a
  subscript on the \<open>UUID\<close> object itself (\<open>create_session\<close> slices \<open>str(uuid.uuid4())\<close>).
  Whatever is raised inside the \<open>try\<close> is turned into a failure result by the
  \<open>except Exception\<close> clause. \<open>u0\<close> is the UUID drawn for the description, \<open>u\<close> the
  one \<open>create_session\<close> draws.
\<close>

definition browser_failure :: "pyexc \<Rightarrow> pyval" where
  "browser_failure e =
     PDict [(lit ''success'', PBool False),
            (lit ''error'', PStr (lit ''Failed to create browser session: '' @ str_exc e))]"

definition str_of :: "pyval \<Rightarrow> pystr" where
  "str_of v = (case v of PStr s \<Rightarrow> s | _ \<Rightarrow> [])"

definition create_browser_session ::
  "uuid \<Rightarrow> uuid \<Rightarrow> real \<Rightarrow> runner \<Rightarrow> real \<Rightarrow> pystr \<Rightarrow> pystr option \<Rightarrow> TTYManager
     \<Rightarrow> pyval \<times> TTYManager" where
  "create_browser_session u0 u now run now' ctime url m =
     (case uuid_getitem u0 8 of
        Inl e \<Rightarrow> (browser_failure e, m)
      | Inr prefix \<Rightarrow>
          (case create_session u now (lit ''Browser-'' @ prefix) m of
             (result, m1) \<Rightarrow>
               (case py_getitem result (lit ''success'') of
                  Inl e \<Rightarrow> (browser_failure e, m1)
                | Inr ok \<Rightarrow>
                    if \<not> truthy ok then (result, m1)
                    else
                      (case py_getitem result (lit ''session_id'') of
                         Inl e \<Rightarrow> (browser_failure e, m1)
                       | Inr sidv \<Rightarrow>
                           (let sid = str_of sidv;
                                m2 = (case url of
                                        None \<Rightarrow> m1
                                      | Some a \<Rightarrow>
                                          if a \<noteq> []
                                          then snd (execute_command run now' ctime sid
                                                      (lit ''lynx '' @ a) m1)
                                          else m1)
                            in (PDict [(lit ''success'', PBool True),
                                       (lit ''session_id'', sidv),
                                       (lit ''type'', PStr (lit ''browser'')),
                                       (lit ''url'', (case url of None \<Rightarrow> PNone | Some a \<Rightarrow> PStr a)),
                                       (lit ''message'',
                                          PStr (case url of
                                                  None \<Rightarrow> lit ''Browser session created''
                                                | Some a \<Rightarrow>
                                                    if a \<noteq> []
                                                    then lit ''Browser session created for '' @ a
                                                    else lit ''Browser session created''))],
                                m2))))))"

section \<open>Sequences of operations\<close>

datatype operation =
    CreateSession uuid real pystr
  | ExecuteCommand runner real pystr pystr pystr
  | GetSessionStats real real pystr
  | GetSession real real pystr
  | ListSessions clock
  | TerminateSession pystr
  | BatchTerminate "pystr list option"
  | GetSummaryStats clock
  | ReadAllSessions
  | HealthCheck clock real "real list" pystr pystr
  | CreateBrowserSession uuid uuid real runner real pystr "pystr option"

fun step :: "operation \<Rightarrow> TTYManager \<Rightarrow> pyval \<times> TTYManager" where
  "step (CreateSession u now descr) m = create_session u now descr m"
| "step (ExecuteCommand run now ctime sid command) m = execute_command run now ctime sid command m"
| "step (GetSessionStats now now' sid) m = (get_session_stats now now' sid m, m)"
| "step (GetSession now now' sid) m = (get_session now now' sid m, m)"
| "step (ListSessions clock) m = (PList (list_sessions clock m), m)"
| "step (TerminateSession sid) m = terminate_session sid m"
| "step (BatchTerminate ids) m = batch_terminate ids m"
| "step (GetSummaryStats clock) m = (get_summary_stats clock m, m)"
| "step ReadAllSessions m = (read_all_sessions m, m)"
| "step (HealthCheck clock now load mem disk) m = (health_check clock now load mem disk m, m)"
| "step (CreateBrowserSession u0 u now run now' ctime url) m =
     create_browser_session u0 u now run now' ctime url m"

fun run_ops :: "operation list \<Rightarrow> TTYManager \<Rightarrow> TTYManager" where
  "run_ops [] m = m"
| "run_ops (x # xs) m = run_ops xs (snd (step x m))"

definition all_active :: "TTYManager \<Rightarrow> bool" where
  "all_active m = list_all (\<lambda>(sid, session). status session = ACTIVE) (sessions m)"

section \<open>The measures the specification names\<close>

text \<open>
  The byte length of a text is the length of its UTF-8 encoding (what \<open>str.encode()\<close>
  gives); a code point takes one to four bytes.
\<close>

definition utf8_len :: "nat \<Rightarrow> nat" where
  "utf8_len c = (if c < 128 then 1 else if c < 2048 then 2 else if c < 65536 then 3 else 4)"

definition byteLength :: "pystr \<Rightarrow> nat" where
  "byteLength s = sum_list (map utf8_len s)"

text \<open>The lines of a text are the pieces between its newlines (\<open>s.split('\n')\<close>).\<close>

fun split_lines :: "pystr \<Rightarrow> pystr list" where
  "split_lines [] = [[]]"
| "split_lines (c # cs) =
     (if c = newline then [] # split_lines cs
      else (case split_lines cs of [] \<Rightarrow> [[c]] | l # ls \<Rightarrow> (c # l) # ls))"

definition lineCount :: "pystr \<Rightarrow> nat" where
  "lineCount s = length (split_lines s)"

text \<open>A report presents the last activity as unset when it gives no number for it.\<close>

definition last_activity_unset :: "pyval \<Rightarrow> bool" where
  "last_activity_unset report =
     (case field (py_get report (lit ''stats'')) ''last_activity_seconds'' of
        None \<Rightarrow> True
      | Some v \<Rightarrow> v = PNone)"

section \<open>Concrete inputs\<close>

text \<open>
  A UUID as \<open>uuid.uuid4()\<close> may return it, the manager holding the one session created
  from it at time 100 with no description, and a runner for the command \<open>echo\<close> followed
  by the character U+4E2D, which the shell prints back.
\<close>

definition example_uuid :: uuid where
  "example_uuid = UUID (lit ''1b9d6bcd-bbfd-4b2d-9b5d-ab8dfbbd4bed'')"

definition example_sid :: pystr where
  "example_sid = lit ''1b9d6bcd''"

definition example_manager :: TTYManager where
  "example_manager = snd (create_session example_uuid 100 [] init_manager)"

text \<open>A second UUID, and the manager after a second session, described as \<open>build\<close>.\<close>

definition other_uuid :: uuid where
  "other_uuid = UUID (lit ''7c9e6679-7425-40de-944b-e07fc1f90ae7'')"

definition other_sid :: pystr where
  "other_sid = lit ''7c9e6679''"

definition two_session_manager :: TTYManager where
  "two_session_manager = snd (create_session other_uuid 150 (lit ''build'') example_manager)"

definition example_ctime :: pystr where
  "example_ctime = lit ''Wed Nov  4 08:00:00 2026''"

definition echo_command :: pystr where
  "echo_command = lit ''echo '' @ [20013]"

definition echo_runner :: runner where
  "echo_runner command = CompletedProcess 0 (drop 5 command @ [newline]) []"

definition timeout_runner :: runner where
  "timeout_runner command = TimeoutExpired"

section \<open>Facts about the concrete inputs\<close>

lemma example_manager_sessions:
  "sessions example_manager =
     [(example_sid, new_session 100 example_sid (lit ''Session-'' @ example_sid))]"
  by (simp add: example_manager_def create_session_def example_uuid_def example_sid_def
      init_manager_def dict_setitem_def lit_def Let_def)

lemma example_manager_lookup:
  "map_of (sessions example_manager) example_sid
     = Some (new_session 100 example_sid (lit ''Session-'' @ example_sid))"
  by (simp add: example_manager_sessions)

lemma two_session_manager_sessions:
  "sessions two_session_manager =
     [(example_sid, new_session 100 example_sid (lit ''Session-'' @ example_sid)),
      (other_sid, new_session 150 other_sid (lit ''build''))]"
  by (simp add: two_session_manager_def create_session_def other_uuid_def other_sid_def
      example_manager_sessions dict_setitem_def Let_def)
     (simp add: example_sid_def lit_def)

lemma two_session_manager_lookup:
  "map_of (sessions two_session_manager) example_sid
     = Some (new_session 100 example_sid (lit ''Session-'' @ example_sid))"
  by (simp add: two_session_manager_sessions)

section \<open>Failed executions\<close>

text \<open>
  Claim C2. For an existing session, when the runner times out or raises, \<open>execute_command\<close>
  returns the manager it was given: the session record (commands executed, last activity,
  buffer, bytes written, lines written) is the one from before the call, and the result
  reports \<open>success: False\<close>.
\<close>

theorem execute_command_failure_unchanged:
  assumes "map_of (sessions m) sid = Some s"
      and "run command = TimeoutExpired \<or> (\<exists>e. run command = RunException e)"
  shows "snd (execute_command run now ctime sid command m) = m
         \<and> map_of (sessions (snd (execute_command run now ctime sid command m))) sid = Some s
         \<and> field (fst (execute_command run now ctime sid command m)) ''success''
             = Some (PBool False)"
  using assms by (auto simp: execute_command_def)

theorem execute_command_failure_unchanged_witness:
  "snd (execute_command timeout_runner 200 example_ctime example_sid echo_command example_manager)
     = example_manager
   \<and> map_of (sessions example_manager) example_sid
     = Some (new_session 100 example_sid (lit ''Session-'' @ example_sid))"
proof -
  have b: "timeout_runner echo_command = TimeoutExpired
           \<or> (\<exists>e. timeout_runner echo_command = RunException e)"
    by (simp add: timeout_runner_def)
  from execute_command_failure_unchanged
         [of example_manager example_sid _ timeout_runner echo_command 200 example_ctime,
          OF example_manager_lookup b]
       example_manager_lookup
  show ?thesis by simp
qed

section \<open>Browser sessions\<close>

text \<open>
  Claim C1 says that every call of \<open>create_browser_session\<close> reports success with the id
  of a new session. The source never gets that far: the subscript on the \<open>UUID\<close> object
  raises while the description is built, before \<open>create_session\<close> is called, and the
  \<open>except\<close> clause returns a failure. For every UUID, clock value, runner, url and
  manager the call reports \<open>success: False\<close> and leaves the store as it was.
\<close>

theorem create_browser_session_always_fails:
  "create_browser_session u0 u now run now' ctime url m =
     (PDict [(lit ''success'', PBool False),
             (lit ''error'',
                PStr (lit ''Failed to create browser session: ''
                      @ [39] @ lit ''UUID'' @ [39] @ lit '' object is not subscriptable''))],
      m)"
  by (simp add: create_browser_session_def browser_failure_def)

section \<open>Successful executions\<close>

lemma length_split_lines: "length (split_lines s) = count_list s newline + 1"
  by (induction s) (auto split: list.splits)

lemma execute_command_success_session:
  assumes "map_of (sessions m) sid = Some s" and "run command = CompletedProcess rc out err"
  shows "map_of (sessions (snd (execute_command run now ctime sid command m))) sid =
           Some (s\<lparr>buffer := format_output command rc ctime out err,
                   stats := (stats s)
                     \<lparr>commands_executed := commands_executed (stats s) + 1,
                      last_activity := now,
                      bytes_written := int (length (format_output command rc ctime out err)),
                      lines_written :=
                        int (count_list (format_output command rc ctime out err) newline) + 1\<rparr>\<rparr>)"
  using assms by (simp add: execute_command_def Let_def dict_setitem_def update_conv')

text \<open>
  After a successful execution the stored byte counter is the number of code points of the
  buffer, and the stored line counter is the number of lines of the buffer.
\<close>

lemma execute_command_counts:
  assumes "map_of (sessions m) sid = Some s" and "run command = CompletedProcess rc out err"
      and "map_of (sessions (snd (execute_command run now ctime sid command m))) sid = Some s'"
  shows "bytes_written (stats s') = int (length (buffer s'))"
    and "lines_written (stats s') = int (lineCount (buffer s'))"
  using assms(3)
    execute_command_success_session
      [where run = run and command = command, OF assms(1,2), of now ctime]
  by (auto simp: lineCount_def length_split_lines)

text \<open>For a text of ASCII characters the two lengths agree.\<close>

lemma byteLength_ascii: "list_all (\<lambda>c. c < 128) s \<Longrightarrow> byteLength s = length s"
  by (induction s) (auto simp: byteLength_def utf8_len_def)

text \<open>
  Claim C3 says that after a successful execution the byte counter is the byte length of
  the buffer. The source stores \<open>len(output)\<close>, the number of code points. On the session
  of the example, the command \<open>echo\<close> of the character U+4E2D gives a buffer of 77 code
  points whose encoding has 81 bytes: the counter is 77.
\<close>

theorem bytes_written_not_byte_length:
  "(case map_of (sessions (snd (execute_command echo_runner 200 example_ctime example_sid
                                  echo_command example_manager))) example_sid of
      None \<Rightarrow> False
    | Some s \<Rightarrow> bytes_written (stats s) = 77 \<and> byteLength (buffer s) = 81
                \<and> length (buffer s) = 77)"
proof -
  have run: "echo_runner echo_command = CompletedProcess 0 [20013, 10] []"
    by (simp add: echo_runner_def echo_command_def lit_def newline_def)
  have out: "format_output echo_command 0 example_ctime [20013, 10] [] =
               lit ''Command: echo '' @ [20013, 10] @ lit ''Return code: 0'' @ [10]
               @ lit ''Timestamp: Wed Nov  4 08:00:00 2026'' @ [10]
               @ lit ''STDOUT:'' @ [10, 20013, 10]"
    by (simp add: format_output_def lit_def example_ctime_def echo_command_def str_int_def
        str_nat.simps newline_def)
  show ?thesis
    by (simp add: execute_command_success_session
          [where run = echo_runner and command = echo_command, OF example_manager_lookup run]
        out)
       (simp add: lit_def byteLength_def utf8_len_def)
qed

section \<open>Unknown session ids\<close>

text \<open>
  Claim C4 says that every operation taking a session id answers an unknown id with a
  payload holding \<open>success: False\<close>. \<open>get_session_stats\<close> does not: on the empty manager
  its answer for the id \<open>zzz\<close> is the dictionary with the single key \<open>error\<close>.
\<close>

theorem get_session_stats_not_found_counterexample:
  "field (get_session_stats 0 0 (lit ''zzz'') init_manager) ''success'' \<noteq> Some (PBool False)
   \<and> get_session_stats 0 0 (lit ''zzz'') init_manager
       = PDict [(lit ''error'', PStr (lit ''Session zzz not found''))]"
  by (simp add: get_session_stats_def init_manager_def lit_def)

text \<open>
  Claim C4 as amended. For an id that is not in the store, \<open>execute_command\<close> and
  \<open>terminate_session\<close> return \<open>success: False\<close> with the message
  \<open>Session <id> not found\<close> and leave the manager unchanged; \<open>get_session_stats\<close> and
  \<open>get_session\<close> return a dictionary holding that message under \<open>error\<close> and nothing
  else. All four return a value.
\<close>

theorem unknown_session_results:
  assumes "map_of (sessions m) sid = None"
  shows "execute_command run now ctime sid command m =
           (PDict [(lit ''success'', PBool False),
                   (lit ''error'', PStr (lit ''Session '' @ sid @ lit '' not found''))], m)
       \<and> terminate_session sid m =
           (PDict [(lit ''success'', PBool False),
                   (lit ''error'', PStr (lit ''Session '' @ sid @ lit '' not found''))], m)
       \<and> get_session_stats now now' sid m =
           PDict [(lit ''error'', PStr (lit ''Session '' @ sid @ lit '' not found''))]
       \<and> get_session now now' sid m =
           PDict [(lit ''error'', PStr (lit ''Session '' @ sid @ lit '' not found''))]"
  using assms
  by (simp add: execute_command_def terminate_session_def get_session_stats_def
      get_session_def not_found_result_def)

theorem unknown_session_results_witness:
  "map_of (sessions init_manager) (lit ''zzz'') = None
   \<and> execute_command echo_runner 0 example_ctime (lit ''zzz'') echo_command init_manager =
       (PDict [(lit ''success'', PBool False),
               (lit ''error'', PStr (lit ''Session '' @ lit ''zzz'' @ lit '' not found''))],
        init_manager)
   \<and> get_session_stats 0 0 (lit ''zzz'') init_manager =
       PDict [(lit ''error'', PStr (lit ''Session '' @ lit ''zzz'' @ lit '' not found''))]"
proof -
  have a: "map_of (sessions init_manager) (lit ''zzz'') = None"
    by (simp add: init_manager_def)
  from unknown_session_results
         [where run = echo_runner and command = echo_command and now = 0 and now' = 0
            and ctime = example_ctime, OF a] a
  show ?thesis by simp
qed

section \<open>Termination of one session\<close>

lemma terminate_session_found:
  "map_of (sessions m) sid = Some s \<Longrightarrow>
     terminate_session sid m
       = (terminated_result sid, m\<lparr>sessions := AList.delete sid (sessions m)\<rparr>)"
  by (simp add: terminate_session_def dict_setitem_def dict_delitem_def delete_update_same)

lemma terminate_session_missing:
  "map_of (sessions m) sid = None \<Longrightarrow> terminate_session sid m = (not_found_result sid, m)"
  by (simp add: terminate_session_def)

lemma terminate_session_cases:
  "terminate_session sid m =
     (if dict_contains (sessions m) sid then terminated_result sid else not_found_result sid,
      m\<lparr>sessions := AList.delete sid (sessions m)\<rparr>)"
proof (cases "map_of (sessions m) sid")
  case None
  then have "sid \<notin> fst ` set (sessions m)" by (simp add: map_of_eq_None_iff)
  with None show ?thesis
    by (simp add: terminate_session_missing dict_contains_def)
next
  case (Some s)
  then show ?thesis by (simp add: terminate_session_found dict_contains_def)
qed

lemma delete_as_filter: "AList.delete k al = filter (\<lambda>p. fst p \<noteq> k) al"
  by (induction al) auto

text \<open>
  Claim C5. Terminating a session that is in the store succeeds and removes that record
  and no other: the store afterwards is the store before without the entry of the id,
  every other entry in its place. A lookup of the id afterwards is answered with
  \<open>Session <id> not found\<close>, and a second termination of the id is answered with
  \<open>success: False\<close> and the same message, leaving the store as the first left it.
\<close>

theorem terminate_session_then_not_found:
  assumes "map_of (sessions m) sid = Some s"
  shows "fst (terminate_session sid m)
           = PDict [(lit ''success'', PBool True), (lit ''session_id'', PStr sid)]
         \<and> snd (terminate_session sid m)
             = m\<lparr>sessions := filter (\<lambda>p. fst p \<noteq> sid) (sessions m)\<rparr>
         \<and> map_of (sessions (snd (terminate_session sid m))) sid = None
         \<and> get_session_stats now now' sid (snd (terminate_session sid m))
             = PDict [(lit ''error'', PStr (lit ''Session '' @ sid @ lit '' not found''))]
         \<and> terminate_session sid (snd (terminate_session sid m))
             = (PDict [(lit ''success'', PBool False),
                       (lit ''error'', PStr (lit ''Session '' @ sid @ lit '' not found''))],
                snd (terminate_session sid m))"
proof -
  have st: "snd (terminate_session sid m)
              = m\<lparr>sessions := filter (\<lambda>p. fst p \<noteq> sid) (sessions m)\<rparr>"
    using assms by (simp add: terminate_session_found delete_as_filter)
  have gone: "map_of (filter (\<lambda>p. fst p \<noteq> sid) (sessions m)) sid = None"
    by (auto simp: map_of_eq_None_iff)
  from assms have "fst (terminate_session sid m)
           = PDict [(lit ''success'', PBool True), (lit ''session_id'', PStr sid)]"
    by (simp add: terminate_session_found terminated_result_def)
  moreover have "map_of (sessions (snd (terminate_session sid m))) sid = None"
    by (simp add: st gone)
  moreover have "get_session_stats now now' sid (snd (terminate_session sid m))
             = PDict [(lit ''error'', PStr (lit ''Session '' @ sid @ lit '' not found''))]"
    by (simp add: st gone get_session_stats_def)
  moreover have "terminate_session sid (snd (terminate_session sid m))
             = (PDict [(lit ''success'', PBool False),
                       (lit ''error'', PStr (lit ''Session '' @ sid @ lit '' not found''))],
                snd (terminate_session sid m))"
    by (simp add: st gone terminate_session_missing not_found_result_def)
  ultimately show ?thesis using st by simp
qed

theorem terminate_session_then_not_found_witness:
  "map_of (sessions two_session_manager) example_sid
     = Some (new_session 100 example_sid (lit ''Session-'' @ example_sid))
   \<and> fst (terminate_session example_sid two_session_manager)
     = PDict [(lit ''success'', PBool True), (lit ''session_id'', PStr example_sid)]
   \<and> sessions (snd (terminate_session example_sid two_session_manager))
     = [(other_sid, new_session 150 other_sid (lit ''build''))]
   \<and> get_session_stats 300 300 example_sid (snd (terminate_session example_sid two_session_manager))
     = PDict [(lit ''error'', PStr (lit ''Session '' @ example_sid @ lit '' not found''))]
   \<and> fst (terminate_session example_sid (snd (terminate_session example_sid two_session_manager)))
     = PDict [(lit ''success'', PBool False),
              (lit ''error'', PStr (lit ''Session '' @ example_sid @ lit '' not found''))]"
proof -
  have n: "other_sid \<noteq> example_sid"
    by (simp add: other_sid_def example_sid_def lit_def)
  have f: "filter (\<lambda>p. fst p \<noteq> example_sid) (sessions two_session_manager)
             = [(other_sid, new_session 150 other_sid (lit ''build''))]"
    using n by (simp add: two_session_manager_sessions)
  note t = terminate_session_then_not_found [OF two_session_manager_lookup, of 300 300]
  have a: "fst (terminate_session example_sid two_session_manager)
             = PDict [(lit ''success'', PBool True), (lit ''session_id'', PStr example_sid)]"
    using t by blast
  have b: "snd (terminate_session example_sid two_session_manager)
             = two_session_manager
                 \<lparr>sessions := filter (\<lambda>p. fst p \<noteq> example_sid) (sessions two_session_manager)\<rparr>"
    using t by blast
  have c: "get_session_stats 300 300 example_sid
              (snd (terminate_session example_sid two_session_manager))
             = PDict [(lit ''error'', PStr (lit ''Session '' @ example_sid @ lit '' not found''))]"
    using t by blast
  have d: "terminate_session example_sid (snd (terminate_session example_sid two_session_manager))
             = (PDict [(lit ''success'', PBool False),
                       (lit ''error'', PStr (lit ''Session '' @ example_sid @ lit '' not found''))],
                snd (terminate_session example_sid two_session_manager))"
    using t by blast
  have e: "sessions (snd (terminate_session example_sid two_session_manager))
             = [(other_sid, new_session 150 other_sid (lit ''build''))]"
    by (simp add: b f)
  have g: "fst (terminate_session example_sid
                  (snd (terminate_session example_sid two_session_manager)))
             = PDict [(lit ''success'', PBool False),
                      (lit ''error'', PStr (lit ''Session '' @ example_sid @ lit '' not found''))]"
    by (simp add: d)
  from two_session_manager_lookup a e c g show ?thesis by blast
qed

section \<open>Fresh sessions\<close>

text \<open>
  Claim C7 says that the statistics of a session on which nothing has run present the
  last activity as unset, not as seconds elapsed since zero. On the session of the
  example, read at time 1000, the report gives the number \<open>1000 - 0\<close>.
\<close>

theorem fresh_session_last_activity_counterexample:
  "field (py_get (get_session_stats 1000 1000 example_sid example_manager) (lit ''stats''))
     ''last_activity_seconds'' = Some (PFloat (1000 - 0))
   \<and> \<not> last_activity_unset (get_session_stats 1000 1000 example_sid example_manager)"
  by (simp add: get_session_stats_def example_manager_lookup session_report_def
      last_activity_unset_def new_session_def lit_def)

text \<open>
  Claim C7 as amended. Right after \<open>create_session\<close>, the statistics of the new session
  report \<open>commands_executed = 0\<close>, and report \<open>last_activity_seconds\<close> as the clock
  reading minus the initial value 0 of \<open>last_activity\<close>.
\<close>

theorem fresh_session_stats:
  "field (py_get (get_session_stats now1 now2 (take 8 (str_uuid u))
                    (snd (create_session u now descr m))) (lit ''stats''))
     ''commands_executed'' = Some (PInt 0)
   \<and> field (py_get (get_session_stats now1 now2 (take 8 (str_uuid u))
                      (snd (create_session u now descr m))) (lit ''stats''))
       ''last_activity_seconds'' = Some (PFloat (now2 - 0))"
  by (simp add: create_session_def Let_def get_session_stats_def dict_setitem_def update_conv'
      session_report_def new_session_def lit_def)

text \<open>
  Claim C8 says that the result of \<open>create_session\<close> without a description carries the
  defaulted description. With the UUID of the example the record is described as
  \<open>Session-1b9d6bcd\<close>, and the result carries the empty description it was given.
\<close>

theorem create_session_description_counterexample:
  "field (fst (create_session example_uuid 100 [] init_manager)) ''description''
     \<noteq> Some (PStr (lit ''Session-1b9d6bcd''))
   \<and> field (fst (create_session example_uuid 100 [] init_manager)) ''description''
     = Some (PStr [])
   \<and> map_option description
        (map_of (sessions (snd (create_session example_uuid 100 [] init_manager)))
           (lit ''1b9d6bcd''))
     = Some (lit ''Session-1b9d6bcd'')"
  by (simp add: create_session_def Let_def lit_def example_uuid_def init_manager_def
      dict_setitem_def new_session_def)

text \<open>
  Claim C8 as amended. \<open>create_session\<close> with an empty description stores a record whose
  description is \<open>Session-\<close> followed by the id, and returns \<open>success: True\<close> with the
  id and with the description as it was passed, the empty text.
\<close>

theorem create_session_default_description:
  "map_option description
     (map_of (sessions (snd (create_session u now [] m))) (take 8 (str_uuid u)))
     = Some (lit ''Session-'' @ take 8 (str_uuid u))
   \<and> field (fst (create_session u now [] m)) ''success'' = Some (PBool True)
   \<and> field (fst (create_session u now [] m)) ''session_id'' = Some (PStr (take 8 (str_uuid u)))
   \<and> field (fst (create_session u now [] m)) ''description'' = Some (PStr [])"
  by (simp add: create_session_def Let_def dict_setitem_def update_conv' new_session_def lit_def)

section \<open>Batch termination\<close>

lemma update_fresh_key:
  "k \<notin> fst ` set al \<Longrightarrow> AList.update k v al = al @ [(k, v)]"
  by (induction al) auto

lemma terminate_each_sessions:
  "snd (terminate_each ids acc m) = m\<lparr>sessions := filter (\<lambda>p. fst p \<notin> set ids) (sessions m)\<rparr>"
proof (induction ids arbitrary: acc m)
  case Nil
  then show ?case by simp
next
  case (Cons x xs)
  have "filter (\<lambda>p. fst p \<notin> set xs) (AList.delete x (sessions m))
          = filter (\<lambda>p. fst p \<notin> set (x # xs)) (sessions m)"
    by (auto simp: AList.delete_eq intro: filter_cong)
  with Cons show ?case by (simp add: terminate_session_cases)
qed

lemma terminate_each_lookup:
  "map_of (fst (terminate_each ids acc m)) sid =
     (if sid \<in> set ids
      then Some (if dict_contains (sessions m) sid \<and> count_list ids sid = 1
                 then terminated_result sid else not_found_result sid)
      else map_of acc sid)"
proof (induction ids arbitrary: acc m)
  case Nil
  then show ?case by simp
next
  case (Cons x xs)
  show ?case
    by (auto simp: Cons terminate_session_cases dict_setitem_def update_conv' dict_contains_def
        delete_conv' count_list_0_iff)
qed

lemma terminate_each_keys:
  "fst ` set (fst (terminate_each ids acc m)) = fst ` set acc \<union> set ids"
  by (induction ids arbitrary: acc m)
     (auto simp: terminate_session_cases dict_setitem_def dom_update)

lemma terminate_each_distinct:
  "distinct (map fst acc) \<Longrightarrow> distinct (map fst (fst (terminate_each ids acc m)))"
  by (induction ids arbitrary: acc m)
     (auto simp: terminate_session_cases dict_setitem_def distinct_update)

lemma terminate_each_present:
  "distinct ids \<Longrightarrow> set ids \<subseteq> fst ` set (sessions m) \<Longrightarrow> set ids \<inter> fst ` set acc = {} \<Longrightarrow>
     fst (terminate_each ids acc m) = acc @ map (\<lambda>sid. (sid, terminated_result sid)) ids"
proof (induction ids arbitrary: acc m)
  case Nil
  then show ?case by simp
next
  case (Cons x xs)
  from Cons.prems have x: "dict_contains (sessions m) x"
    by (auto simp: dict_contains_def map_of_eq_None_iff)
  from Cons.prems have fresh: "x \<notin> fst ` set acc" by auto
  have "fst ` set (AList.delete x (sessions m)) = fst ` set (sessions m) - {x}"
    by (auto simp: AList.delete_eq image_iff)
  with Cons.prems have sub: "set xs \<subseteq> fst ` set (AList.delete x (sessions m))"
    by auto
  have disj: "set xs \<inter> fst ` set (acc @ [(x, terminated_result x)]) = {}"
    using Cons.prems by auto
  from Cons.prems have "distinct xs" by simp
  from Cons.IH [OF this, of "m\<lparr>sessions := AList.delete x (sessions m)\<rparr>"
                  "acc @ [(x, terminated_result x)]"] sub disj
  show ?case
    by (simp add: terminate_session_cases x dict_setitem_def update_fresh_key [OF fresh])
qed

lemma count_values:
  "distinct (map fst al) \<Longrightarrow>
     length (filter P (map snd al)) = card {k \<in> fst ` set al. \<exists>v. map_of al k = Some v \<and> P v}"
proof (induction al)
  case Nil
  then show ?case by simp
next
  case (Cons p al)
  obtain k v where p: "p = (k, v)" by (cases p)
  let ?S = "{k' \<in> fst ` set al. \<exists>v'. map_of al k' = Some v' \<and> P v'}"
  have fin: "finite ?S" by simp
  from Cons.prems p have k: "k \<notin> fst ` set al" by simp
  then have notin: "k \<notin> ?S" by simp
  have "{k' \<in> fst ` set (p # al). \<exists>v'. map_of (p # al) k' = Some v' \<and> P v'}
          = (if P v then insert k ?S else ?S)"
    using k by (auto simp: p)
  with Cons fin notin show ?case by (simp add: p)
qed

lemma card_filter_remdups:
  "card {x \<in> set xs. P x} = length (filter P (remdups xs))"
proof -
  have "{x \<in> set xs. P x} = set (filter P (remdups xs))" by auto
  then show ?thesis using distinct_card [of "filter P (remdups xs)"] by simp
qed


lemma truthy_success_terminated [simp]:
  "truthy (py_get (terminated_result sid) (lit ''success''))"
  by (simp add: terminated_result_def lit_def)

lemma truthy_success_not_found [simp]:
  "\<not> truthy (py_get (not_found_result sid) (lit ''success''))"
  by (simp add: not_found_result_def lit_def)

text \<open>
  Claim C6. On a store whose keys are distinct (as the keys of a \<open>dict\<close> are),
  \<open>batch_terminate\<close> without an id list reports success for exactly the ids that were in
  the store when it was called, returns their number as \<open>terminated_count\<close>, and leaves
  the store empty.
\<close>

theorem batch_terminate_all:
  assumes "distinct (dict_keys (sessions m))"
  shows "batch_terminate None m =
           (PDict [(lit ''success'', PBool True),
                   (lit ''terminated_count'', PInt (int (card (set (dict_keys (sessions m)))))),
                   (lit ''details'',
                      PDict (map (\<lambda>sid. (sid, terminated_result sid)) (dict_keys (sessions m))))],
            m\<lparr>sessions := []\<rparr>)"
proof -
  let ?ids = "dict_keys (sessions m)"
  have res: "fst (terminate_each ?ids [] m) = map (\<lambda>sid. (sid, terminated_result sid)) ?ids"
    using terminate_each_present [of ?ids m "[]"] assms by (simp add: dict_keys_def)
  have "filter (\<lambda>p. fst p \<notin> set ?ids) (sessions m) = []"
    by (auto simp: dict_keys_def filter_empty_conv)
  then have st: "snd (terminate_each ?ids [] m) = m\<lparr>sessions := []\<rparr>"
    by (simp add: terminate_each_sessions)
  have cnt: "length (filter (\<lambda>r. truthy (py_get r (lit ''success'')))
                       (dict_values (map (\<lambda>sid. (sid, terminated_result sid)) ?ids)))
               = card (set ?ids)"
    using assms by (simp add: dict_values_def comp_def distinct_card)
  obtain results m' where te: "terminate_each ?ids [] m = (results, m')"
    by (cases "terminate_each ?ids [] m")
  with res st have "results = map (\<lambda>sid. (sid, terminated_result sid)) ?ids"
    and "m' = m\<lparr>sessions := []\<rparr>" by simp_all
  with te cnt show ?thesis by (simp add: batch_terminate_def)
qed

theorem batch_terminate_all_witness:
  "distinct (dict_keys (sessions example_manager))
   \<and> batch_terminate None example_manager =
       (PDict [(lit ''success'', PBool True),
               (lit ''terminated_count'', PInt 1),
               (lit ''details'', PDict [(example_sid, terminated_result example_sid)])],
        example_manager\<lparr>sessions := []\<rparr>)"
proof -
  have d: "distinct (dict_keys (sessions example_manager))"
    by (simp add: example_manager_sessions dict_keys_def)
  from batch_terminate_all [OF d] d show ?thesis
    by (simp add: example_manager_sessions dict_keys_def)
qed

text \<open>
  Claim C10 says that for every explicit id list \<open>terminated_count\<close> counts the ids whose
  termination succeeded and the details give every id its own outcome. When an id is
  listed twice the second result replaces the first in the details: on the manager of
  the example, a batch naming its session twice terminates the session (the store is
  empty afterwards, and a single termination of that id reports success), and returns
  \<open>terminated_count = 0\<close> with \<open>not found\<close> recorded for the id.
\<close>

theorem batch_terminate_duplicate_counterexample:
  "field (fst (terminate_session example_sid example_manager)) ''success'' = Some (PBool True)
   \<and> batch_terminate (Some [example_sid, example_sid]) example_manager =
       (PDict [(lit ''success'', PBool True),
               (lit ''terminated_count'', PInt 0),
               (lit ''details'', PDict [(example_sid, not_found_result example_sid)])],
        example_manager\<lparr>sessions := []\<rparr>)"
  by (simp add: batch_terminate_def terminate_session_cases dict_contains_def
      example_manager_sessions dict_setitem_def dict_values_def)
     (simp add: terminated_result_def lit_def)

text \<open>
  Claim C10 as amended. For every explicit id list the result has \<open>success: True\<close>; the
  details have exactly the requested ids as keys; each id is recorded with the outcome of
  the last attempt on it, which is success when the id was in the store and is listed
  once, and \<open>not found\<close> otherwise; \<open>terminated_count\<close> is the number of ids recorded
  with success; when no id is listed twice, that is the number of requested ids that were
  in the store. Afterwards the store holds the sessions that were not requested.
\<close>

theorem batch_terminate_explicit:
  "\<exists>results.
     fst (batch_terminate (Some ids) m) =
       PDict [(lit ''success'', PBool True),
              (lit ''terminated_count'',
                 PInt (int (length (filter (\<lambda>sid. dict_contains (sessions m) sid
                                                    \<and> count_list ids sid = 1)
                                           (remdups ids))))),
              (lit ''details'', PDict results)]
     \<and> set (dict_keys results) = set ids
     \<and> (\<forall>sid \<in> set ids.
           map_of results sid =
             Some (if dict_contains (sessions m) sid \<and> count_list ids sid = 1
                   then terminated_result sid else not_found_result sid))
     \<and> (distinct ids \<longrightarrow>
           length (filter (\<lambda>sid. dict_contains (sessions m) sid \<and> count_list ids sid = 1)
                          (remdups ids))
             = length (filter (dict_contains (sessions m)) ids))
     \<and> sessions (snd (batch_terminate (Some ids) m))
         = filter (\<lambda>p. fst p \<notin> set ids) (sessions m)"
proof -
  obtain results m' where te: "terminate_each ids [] m = (results, m')"
    by (cases "terminate_each ids [] m")
  have keys: "fst ` set results = set ids"
    using terminate_each_keys [of ids "[]" m] te by simp
  have dist: "distinct (map fst results)"
    using terminate_each_distinct [of "[]" ids m] te by simp
  have look: "map_of results sid =
                (if sid \<in> set ids
                 then Some (if dict_contains (sessions m) sid \<and> count_list ids sid = 1
                            then terminated_result sid else not_found_result sid)
                 else None)" for sid
    using terminate_each_lookup [of ids "[]" m sid] te by simp
  have st: "m' = m\<lparr>sessions := filter (\<lambda>p. fst p \<notin> set ids) (sessions m)\<rparr>"
    using terminate_each_sessions [of ids "[]" m] te by simp
  have "{k \<in> fst ` set results. \<exists>v. map_of results k = Some v \<and> truthy (py_get v (lit ''success''))}
          = {sid \<in> set ids. dict_contains (sessions m) sid \<and> count_list ids sid = 1}"
    by (auto simp: keys look)
  then have cnt: "length (filter (\<lambda>r. truthy (py_get r (lit ''success''))) (dict_values results))
          = length (filter (\<lambda>sid. dict_contains (sessions m) sid \<and> count_list ids sid = 1)
                           (remdups ids))"
    using count_values [OF dist, of "\<lambda>r. truthy (py_get r (lit ''success''))"]
    by (simp add: dict_values_def card_filter_remdups)
  have one: "distinct ids \<Longrightarrow> sid \<in> set ids \<Longrightarrow> count_list ids sid = 1" for sid
    by (induction ids) auto
  have dcase: "distinct ids \<longrightarrow>
           length (filter (\<lambda>sid. dict_contains (sessions m) sid \<and> count_list ids sid = 1)
                          (remdups ids))
             = length (filter (dict_contains (sessions m)) ids)"
  proof
    assume d: "distinct ids"
    then have "filter (\<lambda>sid. dict_contains (sessions m) sid \<and> count_list ids sid = 1) ids
                 = filter (dict_contains (sessions m)) ids"
      by (auto intro: filter_cong simp: one)
    with d show "length (filter (\<lambda>sid. dict_contains (sessions m) sid \<and> count_list ids sid = 1)
                          (remdups ids))
             = length (filter (dict_contains (sessions m)) ids)"
      by (simp add: distinct_remdups_id)
  qed
  show ?thesis
    apply (rule exI [of _ results])
    using te cnt keys look dcase st
    by (simp add: batch_terminate_def dict_keys_def)
qed

theorem batch_terminate_explicit_witness:
  "field (fst (batch_terminate (Some [example_sid, lit ''zzz'']) example_manager))
     ''terminated_count'' = Some (PInt 1)
   \<and> field (fst (batch_terminate (Some [example_sid, lit ''zzz'']) example_manager))
     ''success'' = Some (PBool True)
   \<and> sessions (snd (batch_terminate (Some [example_sid, lit ''zzz'']) example_manager)) = []"
proof -
  have c: "dict_contains (sessions example_manager) example_sid"
    and z: "\<not> dict_contains (sessions example_manager) (lit ''zzz'')"
    and n: "example_sid \<noteq> lit ''zzz''"
    by (simp_all add: dict_contains_def example_manager_sessions example_sid_def lit_def)
  from batch_terminate_explicit [of "[example_sid, lit ''zzz'']" example_manager]
  obtain results where
    r: "fst (batch_terminate (Some [example_sid, lit ''zzz'']) example_manager) =
         PDict [(lit ''success'', PBool True),
                (lit ''terminated_count'',
                   PInt (int (length (filter (\<lambda>sid. dict_contains (sessions example_manager) sid
                                   \<and> count_list [example_sid, lit ''zzz''] sid = 1)
                               (remdups [example_sid, lit ''zzz'']))))),
                (lit ''details'', PDict results)]"
    and s: "sessions (snd (batch_terminate (Some [example_sid, lit ''zzz'']) example_manager))
              = filter (\<lambda>p. fst p \<notin> set [example_sid, lit ''zzz'']) (sessions example_manager)"
    by blast
  have "field (fst (batch_terminate (Some [example_sid, lit ''zzz'']) example_manager))
          ''terminated_count'' = Some (PInt 1)"
    using c z n by (simp add: r) (simp add: lit_def)
  moreover have "field (fst (batch_terminate (Some [example_sid, lit ''zzz'']) example_manager))
          ''success'' = Some (PBool True)"
    by (simp add: r)
  moreover have "sessions (snd (batch_terminate (Some [example_sid, lit ''zzz'']) example_manager)) = []"
    by (simp add: s example_manager_sessions)
  ultimately show ?thesis by simp
qed

section \<open>The status of stored sessions\<close>

lemma list_all_update:
  "list_all P al \<Longrightarrow> P (k, v) \<Longrightarrow> list_all P (AList.update k v al)"
  by (induction al) auto

lemma list_all_lookup:
  "list_all P al \<Longrightarrow> map_of al k = Some v \<Longrightarrow> P (k, v)"
  by (induction al) (auto split: if_splits)

lemma create_session_all_active:
  "all_active m \<Longrightarrow> all_active (snd (create_session u now descr m))"
  by (simp add: all_active_def create_session_def Let_def dict_setitem_def list_all_update
      new_session_def)

lemma execute_command_all_active:
  assumes "all_active m"
  shows "all_active (snd (execute_command run now ctime sid command m))"
proof (cases "map_of (sessions m) sid")
  case None
  with assms show ?thesis by (simp add: execute_command_def)
next
  case (Some s)
  with assms have "status s = ACTIVE"
    using list_all_lookup [of "\<lambda>(sid, session). status session = ACTIVE" "sessions m" sid s]
    by (simp add: all_active_def)
  with assms Some show ?thesis
    by (cases "run command")
       (simp_all add: execute_command_def all_active_def Let_def dict_setitem_def list_all_update)
qed

lemma filter_all_active:
  "all_active m \<Longrightarrow> all_active (m\<lparr>sessions := filter Q (sessions m)\<rparr>)"
  by (simp add: all_active_def list_all_iff)

lemma terminate_session_all_active:
  "all_active m \<Longrightarrow> all_active (snd (terminate_session sid m))"
  by (simp add: terminate_session_cases AList.delete_eq filter_all_active)

lemma batch_terminate_sessions:
  "snd (batch_terminate ids m) =
     m\<lparr>sessions := filter (\<lambda>p. fst p \<notin> set (case ids of None \<Rightarrow> dict_keys (sessions m) | Some l \<Rightarrow> l))
                       (sessions m)\<rparr>"
  using terminate_each_sessions
          [of "case ids of None \<Rightarrow> dict_keys (sessions m) | Some l \<Rightarrow> l" "[]" m]
  by (auto simp: batch_terminate_def Let_def split: prod.splits)

lemma step_all_active: "all_active m \<Longrightarrow> all_active (snd (step x m))"
  by (cases x)
     (simp_all add: create_session_all_active execute_command_all_active
        terminate_session_all_active batch_terminate_sessions filter_all_active
        create_browser_session_def)

lemma run_ops_all_active: "all_active m \<Longrightarrow> all_active (run_ops xs m)"
  by (induction xs arbitrary: m) (simp_all add: step_all_active)

text \<open>
  Claim C9. After any sequence of operations on the initial manager, every record in the
  store has status \<open>ACTIVE\<close>: \<open>terminate_session\<close> removes the record in the step that
  marks it \<open>TERMINATED\<close>, and no other operation changes a status.
\<close>

theorem stored_sessions_active:
  assumes "map_of (sessions (run_ops xs init_manager)) sid = Some s"
  shows "status s = ACTIVE"
proof -
  have "all_active init_manager" by (simp add: all_active_def init_manager_def)
  then have "all_active (run_ops xs init_manager)" by (rule run_ops_all_active)
  with assms show ?thesis
    using list_all_lookup [of "\<lambda>(sid, session). status session = ACTIVE"
                              "sessions (run_ops xs init_manager)" sid s]
    by (simp add: all_active_def)
qed

theorem stored_sessions_active_witness:
  "map_of (sessions (run_ops [CreateSession example_uuid 100 [],
                              ExecuteCommand timeout_runner 200 example_ctime example_sid echo_command]
                       init_manager)) example_sid
     = Some (new_session 100 example_sid (lit ''Session-'' @ example_sid))
   \<and> status (new_session 100 example_sid (lit ''Session-'' @ example_sid)) = ACTIVE"
proof -
  have a: "map_of (sessions (run_ops [CreateSession example_uuid 100 [],
                              ExecuteCommand timeout_runner 200 example_ctime example_sid echo_command]
                       init_manager)) example_sid
     = Some (new_session 100 example_sid (lit ''Session-'' @ example_sid))"
    using example_manager_lookup
    by (simp add: example_manager_def [symmetric] execute_command_def timeout_runner_def)
  from stored_sessions_active [OF a] a show ?thesis by simp
qed

text \<open>The keys of every reachable store are distinct.\<close>

lemma step_keys_distinct:
  "distinct (dict_keys (sessions m)) \<Longrightarrow> distinct (dict_keys (sessions (snd (step x m))))"
proof (cases x)
  case (ExecuteCommand run now ctime sid command)
  assume "distinct (dict_keys (sessions m))"
  then show ?thesis
    by (cases "map_of (sessions m) sid"; cases "run command")
       (simp_all add: ExecuteCommand execute_command_def dict_keys_def dict_setitem_def
          distinct_update Let_def)
qed (simp_all add: create_session_def Let_def dict_keys_def dict_setitem_def distinct_update
       terminate_session_cases AList.delete_eq distinct_map_filter batch_terminate_sessions
       create_browser_session_def)

lemma reachable_keys_distinct: "distinct (dict_keys (sessions (run_ops xs init_manager)))"
proof -
  have "distinct (dict_keys (sessions m)) \<Longrightarrow> distinct (dict_keys (sessions (run_ops xs m)))" for m
    by (induction xs arbitrary: m) (simp_all add: step_keys_distinct)
  then show ?thesis by (simp add: init_manager_def dict_keys_def)
qed

end
